theory Spec2Isabelle
  imports Main "HOL-Library.Char_ord" "HOL-Library.List_Lexorder"
begin

section \<open>Data model\<close>

text \<open>
  A cell of a data frame: an integer, a string, or the null marker that the join puts
  into the columns of the side that has no matching row.
\<close>

datatype val = VInt int | VStr string | VNull

text \<open>
  A data frame: its column labels in order, and its rows; every row has one cell per
  column. \<open>len(df)\<close> is the number of rows.
\<close>

record table =
  cols :: "string list"
  rows :: "val list list"

definition len_df :: "table \<Rightarrow> nat" where
  "len_df df = length (rows df)"

text \<open>
  The exceptions the code raises or lets through; \<open>OtherError\<close> stands for any other
  exception class of the libraries. \<open>str_exn\<close> is Python's \<open>str(e)\<close>:
  the message, and for a \<open>KeyError\<close> the quoted key.
\<close>

datatype exn = ValueError string | KeyError string | IndexError string | OtherError string

fun str_exn :: "exn \<Rightarrow> string" where
  "str_exn (ValueError m) = m"
| "str_exn (KeyError k) = CHR 0x27 # k @ [CHR 0x27]"
| "str_exn (IndexError m) = m"
| "str_exn (OtherError m) = m"

text \<open>The statistics dictionary returned with the merged frame.\<close>

record merge_stats =
  total_rows_original :: nat
  new_rows_per_file :: "nat \<rightharpoonup> nat"
  missing_rows_per_file :: "nat \<rightharpoonup> nat"
  total_rows_merged :: nat

section \<open>Dictionary keys\<close>

text \<open>The key \<open>f"df{i}"\<close>: the letters df followed by the decimal digits of \<open>i\<close>.\<close>

function str_nat :: "nat \<Rightarrow> string" where
  "str_nat n = (if n < 10 then [''0123456789'' ! n]
                else str_nat (n div 10) @ [''0123456789'' ! (n mod 10)])"
  by pat_completeness auto
termination
  by (relation "measure id") auto

declare str_nat.simps [simp del]

definition df_key :: "nat \<Rightarrow> string" where
  "df_key i = ''df'' @ str_nat i"

section \<open>Data frame primitives\<close>

text \<open>
  The position of the first column with a given label, the single-column read
  \<open>df[c]\<close>, the multi-column selection \<open>df[cs]\<close>, \<open>rename\<close> and \<open>drop\<close>.
  A label that is not a column raises \<open>KeyError\<close>.
\<close>

fun index_of :: "string \<Rightarrow> string list \<Rightarrow> nat option" where
  "index_of c [] = None"
| "index_of c (x # xs) = (if x = c then Some 0 else map_option Suc (index_of c xs))"

definition getitem_col :: "table \<Rightarrow> string \<Rightarrow> exn + val list" where
  "getitem_col df c =
     (case index_of c (cols df) of
        None \<Rightarrow> Inl (KeyError c)
      | Some j \<Rightarrow> Inr (map (\<lambda>r. r ! j) (rows df)))"

definition getitem_cols :: "table \<Rightarrow> string list \<Rightarrow> exn + table" where
  "getitem_cols df cs =
     (case filter (\<lambda>c. c \<notin> set (cols df)) cs of
        [] \<Rightarrow> Inr \<lparr>cols = cs,
                   rows = map (\<lambda>r. map (\<lambda>c. r ! the (index_of c (cols df))) cs) (rows df)\<rparr>
      | m # _ \<Rightarrow> Inl (KeyError m))"

definition rename_columns :: "(string \<Rightarrow> string) \<Rightarrow> table \<Rightarrow> table" where
  "rename_columns f df = df\<lparr>cols := map f (cols df)\<rparr>"

definition drop_col :: "table \<Rightarrow> string \<Rightarrow> exn + table" where
  "drop_col df c =
     (if c \<notin> set (cols df) then Inl (KeyError c)
      else Inr \<lparr>cols = filter (\<lambda>x. x \<noteq> c) (cols df),
                rows = map (\<lambda>r. map snd (filter (\<lambda>p. fst p \<noteq> c) (zip (cols df) r))) (rows df)\<rparr>)"

section \<open>merge_dataframes\<close>

text \<open>
  Two things the function takes from outside are parameters of the model:
  \<^item> \<open>set_order\<close>, the order in which \<open>list(s)\<close> enumerates a Python set, which the
    language leaves open;
  \<^item> \<open>join\<close>, the library's \<open>DataFrame.merge(df, left_on, right_on, how)\<close>.
\<close>

type_synonym set_order = "string set \<Rightarrow> string list"
type_synonym join = "table \<Rightarrow> table \<Rightarrow> string \<Rightarrow> string \<Rightarrow> string \<Rightarrow> exn + table"

text \<open>\<open>name.split('.')[0]\<close>: the label up to its first dot.\<close>

definition split_dot_0 :: "string \<Rightarrow> string" where
  "split_dot_0 name = takeWhile (\<lambda>c. c \<noteq> CHR ''.'') name"

definition rename_dict :: "string \<Rightarrow> string \<Rightarrow> string \<Rightarrow> string" where
  "rename_dict name merge_col col =
     (if col \<noteq> merge_col then split_dot_0 name @ ''_'' @ col else col)"

text \<open>The body of the first loop, for the table at position \<open>i\<close>.\<close>

definition filter_df ::
  "set_order \<Rightarrow> (string \<rightharpoonup> string) \<Rightarrow> (string \<rightharpoonup> string set) \<Rightarrow> nat \<Rightarrow> table \<Rightarrow> string
     \<Rightarrow> exn + table" where
  "filter_df set_order merge_columns selected_columns i df name =
     (case merge_columns (df_key i) of
        None \<Rightarrow> Inl (KeyError (df_key i))
      | Some merge_col \<Rightarrow>
          (let selected_cols = (case selected_columns (df_key i) of None \<Rightarrow> {} | Some s \<Rightarrow> s);
               cols_to_keep = set_order (selected_cols \<union> {merge_col})
           in case getitem_cols df cols_to_keep of
                Inl e \<Rightarrow> Inl e
              | Inr filtered_df \<Rightarrow> Inr (rename_columns (rename_dict name merge_col) filtered_df)))"

fun filter_dfs ::
  "set_order \<Rightarrow> (string \<rightharpoonup> string) \<Rightarrow> (string \<rightharpoonup> string set) \<Rightarrow> nat \<Rightarrow> (table \<times> string) list
     \<Rightarrow> exn + table list" where
  "filter_dfs set_order merge_columns selected_columns i [] = Inr []"
| "filter_dfs set_order merge_columns selected_columns i ((df, name) # rest) =
     (case filter_df set_order merge_columns selected_columns i df name of
        Inl e \<Rightarrow> Inl e
      | Inr filtered_df \<Rightarrow>
          (case filter_dfs set_order merge_columns selected_columns (Suc i) rest of
             Inl e \<Rightarrow> Inl e
           | Inr fs \<Rightarrow> Inr (filtered_df # fs)))"

text \<open>
  The elements of \<open>set(series)\<close>. Iterating a column hands out one Python object per
  cell, and the set keeps two objects apart unless they are identical or equal. A NaN
  is equal to nothing, itself included. A column without a string cell is numeric and,
  once it holds a null, a float column: iterating it makes a new NaN object for every
  null cell, so each null cell is an element of its own, different from every element
  of the other column too. A column with a string cell holds objects, and the library
  puts one and the same null object into all its null cells.
\<close>

datatype side = Left_series | Right_series

datatype key_item = Item val | Fresh_nan side nat | Shared_null

definition numeric_column :: "val list \<Rightarrow> bool" where
  "numeric_column xs = list_all (\<lambda>x. case x of VStr _ \<Rightarrow> False | _ \<Rightarrow> True) xs"

definition series_items :: "side \<Rightarrow> val list \<Rightarrow> key_item list" where
  "series_items s xs =
     map (\<lambda>(j, x). if x = VNull
                     then (if numeric_column xs then Fresh_nan s j else Shared_null)
                     else Item x)
         (enumerate 0 xs)"

text \<open>
  The body of the \<open>try\<close> block of the second loop: the two key sets, the two counts
  recorded under \<open>i\<close>, then the join, then the drop of the right key column when the
  two key columns have different names.
\<close>

type_synonym loop_state = "table \<times> (nat \<rightharpoonup> nat) \<times> (nat \<rightharpoonup> nat)"

definition merge_step ::
  "join \<Rightarrow> string \<Rightarrow> string \<Rightarrow> string \<Rightarrow> nat \<Rightarrow> table \<Rightarrow> loop_state \<Rightarrow> exn + loop_state" where
  "merge_step join merge_type left_col right_col i df st =
     (case st of (result, new, missing) \<Rightarrow>
      (case getitem_col result left_col of
         Inl e \<Rightarrow> Inl e
       | Inr lk \<Rightarrow>
      (case getitem_col df right_col of
         Inl e \<Rightarrow> Inl e
       | Inr rk \<Rightarrow>
          (let left_keys = set (series_items Left_series lk);
               right_keys = set (series_items Right_series rk);
               new_rows = card (right_keys - left_keys);
               missing_rows = card (left_keys - right_keys);
               new' = new(i \<mapsto> new_rows);
               missing' = missing(i \<mapsto> missing_rows)
           in case join result df left_col right_col merge_type of
                Inl e \<Rightarrow> Inl e
              | Inr merged \<Rightarrow>
                  if left_col \<noteq> right_col
                  then (case drop_col merged right_col of
                          Inl e \<Rightarrow> Inl e
                        | Inr dropped \<Rightarrow> Inr (dropped, new', missing'))
                  else Inr (merged, new', missing')))))"

text \<open>
  The second loop. The two dictionary reads stand before the \<open>try\<close>, so a missing
  entry is a bare \<open>KeyError\<close>; whatever the \<open>try\<close> block raises comes out as a
  \<open>ValueError\<close> that carries the text of the cause.
\<close>

fun merge_loop ::
  "join \<Rightarrow> (string \<rightharpoonup> string) \<Rightarrow> string \<Rightarrow> nat \<Rightarrow> table list \<Rightarrow> loop_state \<Rightarrow> exn + loop_state" where
  "merge_loop join merge_columns merge_type i [] st = Inr st"
| "merge_loop join merge_columns merge_type i (df # rest) st =
     (case merge_columns ''df0'' of
        None \<Rightarrow> Inl (KeyError ''df0'')
      | Some left_col \<Rightarrow>
     (case merge_columns (df_key i) of
        None \<Rightarrow> Inl (KeyError (df_key i))
      | Some right_col \<Rightarrow>
     (case merge_step join merge_type left_col right_col i df st of
        Inl e \<Rightarrow> Inl (ValueError (''Error merging DataFrames: '' @ str_exn e))
      | Inr st' \<Rightarrow> merge_loop join merge_columns merge_type (Suc i) rest st')))"

definition merge_dataframes ::
  "set_order \<Rightarrow> join \<Rightarrow> table list \<Rightarrow> (string \<rightharpoonup> string) \<Rightarrow> (string \<rightharpoonup> string set)
     \<Rightarrow> string list \<Rightarrow> string \<Rightarrow> exn + (table \<times> merge_stats)" where
  "merge_dataframes set_order join dfs merge_columns selected_columns df_names merge_type =
     (if dfs = [] \<or> length dfs < 2
      then Inl (ValueError ''At least two DataFrames are required for merging'')
      else
        (case filter_dfs set_order merge_columns selected_columns 0 (zip dfs df_names) of
           Inl e \<Rightarrow> Inl e
         | Inr filtered_dfs \<Rightarrow>
        (case filtered_dfs of
           [] \<Rightarrow> Inl (IndexError ''list index out of range'')
         | result0 # rest \<Rightarrow>
        (case merge_loop join merge_columns merge_type 1 rest (result0, Map.empty, Map.empty) of
           Inl e \<Rightarrow> Inl e
         | Inr (result, new, missing) \<Rightarrow>
             Inr (result,
                  \<lparr>total_rows_original = sum_list (map len_df dfs),
                   new_rows_per_file = new,
                   missing_rows_per_file = missing,
                   total_rows_merged = len_df result\<rparr>)))))"

section \<open>The library join\<close>

text \<open>
  \<open>DataFrame.merge\<close> as the library documents it, for the four modes the caller offers.
  Rows match when their key cells are equal. When both key columns have the same name
  the result has one key column; otherwise it has both, and a row that comes from one
  side only is null in all columns of the other side. A label that occurs on both sides
  (the shared key apart) gets the suffix \<open>_x\<close> on the left and \<open>_y\<close> on the right.
  The rows are produced in the order of the left table (of the right one for mode right),
  and for mode outer the rows of the right table without a partner follow at the end;
  the library's sorting of an outer join by key is not modelled.
\<close>

definition cut_key :: "bool \<Rightarrow> nat \<Rightarrow> 'a list \<Rightarrow> 'a list" where
  "cut_key same rj xs = (if same then take rj xs @ drop (Suc rj) xs else xs)"

definition pd_merge :: join where
  "pd_merge left right left_on right_on how =
     (case index_of left_on (cols left) of
        None \<Rightarrow> Inl (KeyError left_on)
      | Some lj \<Rightarrow>
     (case index_of right_on (cols right) of
        None \<Rightarrow> Inl (KeyError right_on)
      | Some rj \<Rightarrow>
        if how \<notin> {''left'', ''right'', ''outer'', ''inner''}
        then Inl (OtherError (how @ '' is not a valid Merge type''))
        else
          (let same = (left_on = right_on);
               rcols = cut_key same rj (cols right);
               overlap = (\<lambda>c. c \<in> set (cols left) \<and> c \<in> set rcols);
               out_cols = map (\<lambda>c. if overlap c then c @ ''_x'' else c) (cols left)
                        @ map (\<lambda>c. if overlap c then c @ ''_y'' else c) rcols;
               lnull = (\<lambda>r. if same
                              then (replicate (length (cols left)) VNull)[lj := r ! rj]
                              else replicate (length (cols left)) VNull);
               rnull = replicate (length rcols) VNull;
               left_rows = concat (map (\<lambda>l.
                   (let ms = filter (\<lambda>r. r ! rj = l ! lj) (rows right)
                    in if ms = []
                       then (if how = ''left'' \<or> how = ''outer'' then [l @ rnull] else [])
                       else map (\<lambda>r. l @ cut_key same rj r) ms)) (rows left));
               right_rows = concat (map (\<lambda>r.
                   (let ms = filter (\<lambda>l. l ! lj = r ! rj) (rows left)
                    in if ms = [] then [lnull r @ cut_key same rj r]
                       else map (\<lambda>l. l @ cut_key same rj r) ms)) (rows right));
               right_only = map (\<lambda>r. lnull r @ cut_key same rj r)
                   (filter (\<lambda>r. list_all (\<lambda>l. l ! lj \<noteq> r ! rj) (rows left)) (rows right))
           in Inr \<lparr>cols = out_cols,
                   rows = (if how = ''right'' then right_rows
                           else if how = ''outer'' then left_rows @ right_only
                           else left_rows)\<rparr>)))"

text \<open>
  Reading a result by column label: the cells of each row under the given labels, in
  the given order. It makes a statement about a result independent of the order of its
  columns.
\<close>

definition rows_by :: "string list \<Rightarrow> table \<Rightarrow> val list list" where
  "rows_by cs df = map (\<lambda>r. map (\<lambda>c. r ! the (index_of c (cols df))) cs) (rows df)"

section \<open>read_file\<close>

text \<open>
  \<open>str.endswith\<close>, and the loader. The two parsers of the library are parameters: each
  returns a table or raises. The \<open>raise\<close> for an unsupported name stands inside the
  \<open>try\<close>, so the handler catches it like any failure of a parser.
\<close>

definition endswith :: "string \<Rightarrow> string \<Rightarrow> bool" where
  "endswith s suf = (length suf \<le> length s \<and> drop (length s - length suf) s = suf)"

record 'b uploaded_file =
  name :: string
  content :: 'b

definition read_file ::
  "('b \<Rightarrow> exn + table) \<Rightarrow> ('b \<Rightarrow> exn + table) \<Rightarrow> 'b uploaded_file \<Rightarrow> exn + table" where
  "read_file read_csv read_excel uploaded_file =
     (case (if endswith (name uploaded_file) ''.csv'' then read_csv (content uploaded_file)
            else if endswith (name uploaded_file) ''.xls'' \<or> endswith (name uploaded_file) ''.xlsx''
                 then read_excel (content uploaded_file)
            else Inl (ValueError ''Unsupported file format'')) of
        Inl e \<Rightarrow> Inl (ValueError (''Error reading file: '' @ str_exn e))
      | Inr df \<Rightarrow> Inr df)"

section \<open>get_download_buffer\<close>

text \<open>
  What is written into the buffer: the table through \<open>to_csv\<close> or through \<open>to_excel\<close>
  (one sheet), each with its \<open>index\<close> argument.
\<close>

datatype buffer = To_csv table bool | To_excel table bool

definition get_download_buffer :: "table \<Rightarrow> string \<Rightarrow> buffer \<times> string" where
  "get_download_buffer df file_format =
     (if file_format = ''csv''
      then (To_csv df False, ''text/csv'')
      else (To_excel df False,
            ''application/vnd.openxmlformats-officedocument.spreadsheetml.sheet''))"

text \<open>
  The state of the second loop after its first \<open>k\<close> iterations: the running result
  that iteration \<open>k + 1\<close> starts from.
\<close>

definition loop_prefix :: "join \<Rightarrow> (string \<rightharpoonup> string) \<Rightarrow> string \<Rightarrow> table list \<Rightarrow> nat \<Rightarrow> exn + loop_state" where
  "loop_prefix join merge_columns merge_type filtered_dfs k =
     merge_loop join merge_columns merge_type 1 (take k (tl filtered_dfs))
       (hd filtered_dfs, Map.empty, Map.empty)"

section \<open>The scenario of the specification\<close>

text \<open>
  Table A with columns id and name, table B with columns id and val, joined on id with
  every column selected. \<open>sorted_order\<close> is one order in which a set can be enumerated:
  the labels in alphabetical order.
\<close>

definition ex_A :: table where
  "ex_A = \<lparr>cols = [''id'', ''name''], rows = [[VInt 1, VStr ''a''], [VInt 2, VStr ''b'']]\<rparr>"

definition ex_B :: table where
  "ex_B = \<lparr>cols = [''id'', ''val''], rows = [[VInt 2, VInt 10], [VInt 3, VInt 20]]\<rparr>"

definition ex_merge_columns :: "string \<rightharpoonup> string" where
  "ex_merge_columns = [''df0'' \<mapsto> ''id'', ''df1'' \<mapsto> ''id'']"

definition ex_selected_columns :: "string \<rightharpoonup> string set" where
  "ex_selected_columns = [''df0'' \<mapsto> {''id'', ''name''}, ''df1'' \<mapsto> {''id'', ''val''}]"

definition sorted_order :: set_order where
  "sorted_order S = sorted_list_of_set S"

text \<open>
  Further inputs of the examples: a selection that deselects every column of table 0, a
  choice of key columns that names a column table B does not have, and a parser of the
  library that fails on its input.
\<close>

definition ex_deselected :: "string \<rightharpoonup> string set" where
  "ex_deselected = [''df0'' \<mapsto> {}]"

definition ex_absent_key :: "string \<rightharpoonup> string" where
  "ex_absent_key = [''df0'' \<mapsto> ''id'', ''df1'' \<mapsto> ''key'']"

text \<open>
  Three tables without a null, each with its key column only, under three different
  key names.
\<close>

definition ex_P :: table where
  "ex_P = \<lparr>cols = [''id''], rows = [[VInt 1], [VInt 2]]\<rparr>"

definition ex_Q :: table where
  "ex_Q = \<lparr>cols = [''key''], rows = [[VInt 3], [VInt 4]]\<rparr>"

definition ex_R :: table where
  "ex_R = \<lparr>cols = [''kk''], rows = [[VInt 5]]\<rparr>"

definition ex_chain_columns :: "string \<rightharpoonup> string" where
  "ex_chain_columns = [''df0'' \<mapsto> ''id'', ''df1'' \<mapsto> ''key'', ''df2'' \<mapsto> ''kk'']"

definition ex_chain_selected :: "string \<rightharpoonup> string set" where
  "ex_chain_selected = [''df0'' \<mapsto> {''id''}, ''df1'' \<mapsto> {''key''}, ''df2'' \<mapsto> {''kk''}]"

text \<open>The projections of the two tables of the scenario, columns in alphabetical order.\<close>

definition ex_A_projected :: table where
  "ex_A_projected = \<lparr>cols = [''id'', ''A_name''], rows = [[VInt 1, VStr ''a''], [VInt 2, VStr ''b'']]\<rparr>"

definition ex_B_projected :: table where
  "ex_B_projected = \<lparr>cols = [''id'', ''B_val''], rows = [[VInt 2, VInt 10], [VInt 3, VInt 20]]\<rparr>"

definition ex_failing_parser :: "string \<Rightarrow> exn + table" where
  "ex_failing_parser bytes = Inl (OtherError ''No columns to parse from file'')"

definition ex_txt_file :: "string uploaded_file" where
  "ex_txt_file = \<lparr>name = ''data.txt'', content = ''1,2''\<rparr>"

definition ex_csv_file :: "string uploaded_file" where
  "ex_csv_file = \<lparr>name = ''data.csv'', content = []\<rparr>"

definition ex_xlsx_file :: "string uploaded_file" where
  "ex_xlsx_file = \<lparr>name = ''data.xlsx'', content = []\<rparr>"

section \<open>Evaluation lemmas\<close>

lemma df_key_0: "df_key 0 = ''df0''"
  by (simp add: df_key_def str_nat.simps)

lemma df_key_Suc_0: "df_key (Suc 0) = ''df1''"
  by (simp add: df_key_def str_nat.simps)

lemma sorted_order_id_name: "sorted_order {''id'', ''name''} = [''id'', ''name'']"
  by (simp add: sorted_order_def)

lemma sorted_order_id_val: "sorted_order {''id'', ''val''} = [''id'', ''val'']"
  by (simp add: sorted_order_def)

lemma filter_ex_A:
  "so {''id'', ''name''} = [''id'', ''name''] \<Longrightarrow>
   filter_df so ex_merge_columns ex_selected_columns 0 ex_A ''A''
     = Inr \<lparr>cols = [''id'', ''A_name''], rows = [[VInt 1, VStr ''a''], [VInt 2, VStr ''b'']]\<rparr>"
  by (simp add: filter_df_def df_key_0 ex_merge_columns_def ex_selected_columns_def ex_A_def
      getitem_cols_def rename_columns_def rename_dict_def split_dot_0_def)

lemma filter_ex_A_swapped:
  "so {''id'', ''name''} = [''name'', ''id''] \<Longrightarrow>
   filter_df so ex_merge_columns ex_selected_columns 0 ex_A ''A''
     = Inr \<lparr>cols = [''A_name'', ''id''], rows = [[VStr ''a'', VInt 1], [VStr ''b'', VInt 2]]\<rparr>"
  by (simp add: filter_df_def df_key_0 ex_merge_columns_def ex_selected_columns_def ex_A_def
      getitem_cols_def rename_columns_def rename_dict_def split_dot_0_def)

lemma filter_ex_B:
  "so {''id'', ''val''} = [''id'', ''val''] \<Longrightarrow>
   filter_df so ex_merge_columns ex_selected_columns (Suc 0) ex_B ''B''
     = Inr \<lparr>cols = [''id'', ''B_val''], rows = [[VInt 2, VInt 10], [VInt 3, VInt 20]]\<rparr>"
  by (simp add: filter_df_def df_key_Suc_0 ex_merge_columns_def ex_selected_columns_def ex_B_def
      getitem_cols_def rename_columns_def rename_dict_def split_dot_0_def)

lemma filter_ex_B_swapped:
  "so {''id'', ''val''} = [''val'', ''id''] \<Longrightarrow>
   filter_df so ex_merge_columns ex_selected_columns (Suc 0) ex_B ''B''
     = Inr \<lparr>cols = [''B_val'', ''id''], rows = [[VInt 10, VInt 2], [VInt 20, VInt 3]]\<rparr>"
  by (simp add: filter_df_def df_key_Suc_0 ex_merge_columns_def ex_selected_columns_def ex_B_def
      getitem_cols_def rename_columns_def rename_dict_def split_dot_0_def)

lemma two_element_list:
  assumes "set xs = {a, b}" "distinct xs" "a \<noteq> b"
  shows "xs = [a, b] \<or> xs = [b, a]"
proof -
  have "length xs = 2" using assms distinct_card[of xs] by simp
  then obtain x y where xy: "xs = [x, y]"
    by (cases xs; cases "tl xs") (auto simp: length_Suc_conv)
  with assms show ?thesis by (auto simp: doubleton_eq_iff)
qed

lemma scenario_case:
  assumes "so {''id'', ''name''} = [''id'', ''name''] \<or> so {''id'', ''name''} = [''name'', ''id'']"
      and "so {''id'', ''val''} = [''id'', ''val''] \<or> so {''id'', ''val''} = [''val'', ''id'']"
  shows "\<exists>result stats.
           merge_dataframes so pd_merge [ex_A, ex_B] ex_merge_columns ex_selected_columns
               [''A'', ''B''] ''outer'' = Inr (result, stats)
         \<and> set (cols result) = {''id'', ''A_name'', ''B_val''} \<and> length (cols result) = 3
         \<and> set (rows_by [''id'', ''A_name'', ''B_val''] result)
             = {[VInt 1, VStr ''a'', VNull], [VInt 2, VStr ''b'', VInt 10], [VInt 3, VNull, VInt 20]}
         \<and> new_rows_per_file stats 1 = Some 1 \<and> missing_rows_per_file stats 1 = Some 1
         \<and> total_rows_original stats = 4 \<and> total_rows_merged stats = 3"
  using assms
  apply (elim disjE)
     apply (simp_all add: merge_dataframes_def filter_ex_A filter_ex_B filter_ex_A_swapped filter_ex_B_swapped)
     apply (simp_all add: ex_merge_columns_def df_key_Suc_0 merge_step_def getitem_col_def series_items_def numeric_column_def pd_merge_def cut_key_def Let_def insert_Diff_if len_df_def ex_A_def ex_B_def rows_by_def)
  apply auto
  done

lemma scenario_sorted:
  "merge_dataframes sorted_order pd_merge [ex_A, ex_B] ex_merge_columns ex_selected_columns
               [''A'', ''B''] ''outer''
   = Inr (\<lparr>cols = [''id'', ''A_name'', ''B_val''],
            rows = [[VInt 1, VStr ''a'', VNull], [VInt 2, VStr ''b'', VInt 10], [VInt 3, VNull, VInt 20]]\<rparr>,
          \<lparr>total_rows_original = 4, new_rows_per_file = [1 \<mapsto> 1], missing_rows_per_file = [1 \<mapsto> 1],
           total_rows_merged = 3\<rparr>)"
  apply (simp add: merge_dataframes_def filter_ex_A filter_ex_B sorted_order_id_name sorted_order_id_val)
  apply (simp add: ex_merge_columns_def df_key_Suc_0 merge_step_def getitem_col_def series_items_def numeric_column_def pd_merge_def
      cut_key_def Let_def insert_Diff_if len_df_def ex_A_def ex_B_def)
  done

lemma scenario_filtered:
  "filter_dfs sorted_order ex_merge_columns ex_selected_columns 0 (zip [ex_A, ex_B] [''A'', ''B''])
   = Inr [\<lparr>cols = [''id'', ''A_name''], rows = [[VInt 1, VStr ''a''], [VInt 2, VStr ''b'']]\<rparr>,
          \<lparr>cols = [''id'', ''B_val''], rows = [[VInt 2, VInt 10], [VInt 3, VInt 20]]\<rparr>]"
  by (simp add: filter_ex_A filter_ex_B sorted_order_id_name sorted_order_id_val)

lemma df_key_2: "df_key (Suc (Suc 0)) = ''df2''"
  by (simp add: df_key_def str_nat.simps)

lemma chain_filtered:
  "filter_dfs sorted_order ex_chain_columns ex_chain_selected 0
     (zip [ex_P, ex_Q, ex_R] [''p.csv'', ''q.csv'', ''r.csv''])
   = Inr [\<lparr>cols = [''id''], rows = [[VInt 1], [VInt 2]]\<rparr>,
          \<lparr>cols = [''key''], rows = [[VInt 3], [VInt 4]]\<rparr>,
          \<lparr>cols = [''kk''], rows = [[VInt 5]]\<rparr>]"
  by (simp add: filter_df_def df_key_0 df_key_Suc_0 df_key_2 ex_chain_columns_def
      ex_chain_selected_def sorted_order_def ex_P_def ex_Q_def ex_R_def getitem_cols_def
      rename_columns_def rename_dict_def split_dot_0_def)

lemma chain_step_1:
  "merge_step pd_merge ''outer'' ''id'' ''key'' (Suc 0)
     \<lparr>cols = [''key''], rows = [[VInt 3], [VInt 4]]\<rparr>
     (\<lparr>cols = [''id''], rows = [[VInt 1], [VInt 2]]\<rparr>, Map.empty, Map.empty)
   = Inr (\<lparr>cols = [''id''], rows = [[VInt 1], [VInt 2], [VNull], [VNull]]\<rparr>,
          [Suc 0 \<mapsto> Suc (Suc 0)], [Suc 0 \<mapsto> Suc (Suc 0)])"
  by (simp add: eval_nat_numeral merge_step_def getitem_col_def series_items_def numeric_column_def pd_merge_def
      cut_key_def drop_col_def Let_def insert_Diff_if)

lemma chain_step_2:
  "merge_step pd_merge ''outer'' ''id'' ''kk'' (Suc (Suc 0))
     \<lparr>cols = [''kk''], rows = [[VInt 5]]\<rparr>
     (\<lparr>cols = [''id''], rows = [[VInt 1], [VInt 2], [VNull], [VNull]]\<rparr>,
      [Suc 0 \<mapsto> Suc (Suc 0)], [Suc 0 \<mapsto> Suc (Suc 0)])
   = Inr (\<lparr>cols = [''id''], rows = [[VInt 1], [VInt 2], [VNull], [VNull], [VNull]]\<rparr>,
          [Suc 0 \<mapsto> Suc (Suc 0), Suc (Suc 0) \<mapsto> Suc 0], [Suc 0 \<mapsto> Suc (Suc 0), Suc (Suc 0) \<mapsto> Suc (Suc (Suc (Suc 0)))])"
  by (simp add: eval_nat_numeral merge_step_def getitem_col_def series_items_def numeric_column_def pd_merge_def
      cut_key_def drop_col_def Let_def insert_Diff_if)

section \<open>The second loop\<close>

lemma merge_loop_append:
  "merge_loop J mc how i (xs @ ys) st =
     (case merge_loop J mc how i xs st of
        Inl e \<Rightarrow> Inl e
      | Inr st' \<Rightarrow> merge_loop J mc how (i + length xs) ys st')"
  by (induction xs arbitrary: i st) (auto split: option.splits sum.splits)

lemma merge_step_Inr:
  assumes "merge_step J how lc rc i df (r, n, m) = Inr (r', n', m')"
  shows "\<exists>lk rk. getitem_col r lc = Inr lk \<and> getitem_col df rc = Inr rk
           \<and> n' = n(i \<mapsto> card (set (series_items Right_series rk)
                                  - set (series_items Left_series lk)))
           \<and> m' = m(i \<mapsto> card (set (series_items Left_series lk)
                                  - set (series_items Right_series rk)))"
  using assms
  by (auto simp: merge_step_def Let_def split: sum.splits if_splits)

lemma merge_loop_keeps:
  "merge_loop J mc how i xs (r, n, m) = Inr (r', n', m') \<Longrightarrow> j < i \<Longrightarrow> n' j = n j \<and> m' j = m j"
proof (induction xs arbitrary: i r n m)
  case Nil
  then show ?case by simp
next
  case (Cons df xs)
  from Cons.prems(1) obtain lc rc r1 n1 m1 where
    s: "merge_step J how lc rc i df (r, n, m) = Inr (r1, n1, m1)"
    and l: "merge_loop J mc how (Suc i) xs (r1, n1, m1) = Inr (r', n', m')"
    by (auto split: option.splits sum.splits)
  from merge_step_Inr[OF s] Cons.prems(2) have "n1 j = n j \<and> m1 j = m j" by auto
  moreover from Cons.IH[OF l] Cons.prems(2) have "n' j = n1 j \<and> m' j = m1 j" by simp
  ultimately show ?case by simp
qed

lemma merge_loop_dom:
  "merge_loop J mc how i xs (r, n, m) = Inr (r', n', m') \<Longrightarrow>
     dom n' = dom n \<union> {i ..< i + length xs} \<and> dom m' = dom m \<union> {i ..< i + length xs}"
proof (induction xs arbitrary: i r n m)
  case Nil
  then show ?case by simp
next
  case (Cons df xs)
  from Cons.prems(1) obtain lc rc r1 n1 m1 where
    s: "merge_step J how lc rc i df (r, n, m) = Inr (r1, n1, m1)"
    and l: "merge_loop J mc how (Suc i) xs (r1, n1, m1) = Inr (r', n', m')"
    by (auto split: option.splits sum.splits)
  from merge_step_Inr[OF s] have "dom n1 = insert i (dom n) \<and> dom m1 = insert i (dom m)" by auto
  with Cons.IH[OF l] show ?case by auto
qed

lemma merge_dataframes_Inr:
  assumes "merge_dataframes so J dfs mc sel names how = Inr (result, stats)"
  shows "\<exists>fs new missing. filter_dfs so mc sel 0 (zip dfs names) = Inr fs \<and> fs \<noteq> []
           \<and> merge_loop J mc how 1 (tl fs) (hd fs, Map.empty, Map.empty) = Inr (result, new, missing)
           \<and> stats = \<lparr>total_rows_original = sum_list (map len_df dfs),
                   new_rows_per_file = new, missing_rows_per_file = missing,
                   total_rows_merged = len_df result\<rparr> \<and> 2 \<le> length dfs"
  using assms
  by (auto simp: merge_dataframes_def split: if_splits sum.splits list.splits prod.splits)

section \<open>Fewer than two tables\<close>

text \<open>
  C7. A call with fewer than two tables (none, or exactly one) fails with the
  error that asks for at least two data frames, whatever the other arguments are and
  whatever the join would do: no join is performed.
\<close>

theorem merge_dataframes_insufficient:
  "length dfs < 2 \<Longrightarrow>
     merge_dataframes set_order join dfs merge_columns selected_columns df_names merge_type
       = Inl (ValueError ''At least two DataFrames are required for merging'')"
  by (simp add: merge_dataframes_def)

theorem merge_dataframes_insufficient_witness:
  "length [ex_A] < 2 \<and>
   merge_dataframes sorted_order pd_merge [ex_A] ex_merge_columns ex_selected_columns
       [''A''] ''outer''
     = Inl (ValueError ''At least two DataFrames are required for merging'')"
  using merge_dataframes_insufficient
    [of "[ex_A]" sorted_order pd_merge ex_merge_columns ex_selected_columns "[''A'']" "''outer''"]
  by simp

section \<open>Statistics of a merge step\<close>

lemma filter_dfs_length:
  "filter_dfs so mc sel i zs = Inr fs \<Longrightarrow> length fs = length zs"
  by (induction zs arbitrary: i fs) (auto split: sum.splits)

text \<open>
  What a step records, in any merge that succeeds: the two counts under \<open>i\<close> are taken
  from the key column of the running result after the first \<open>i - 1\<close> joins and from the
  key column of table \<open>i\<close>'s projection, before the join of step \<open>i\<close>, and no later step
  changes them.
\<close>

lemma merge_stats_recorded:
  assumes ok: "merge_dataframes so J dfs mc sel names how = Inr (result, stats)"
      and fs: "filter_dfs so mc sel 0 (zip dfs names) = Inr fs"
      and i: "1 \<le> i" "i < length fs"
  shows "\<exists>running new missing left_col right_col lk rk.
           loop_prefix J mc how fs (i - 1) = Inr (running, new, missing)
         \<and> mc ''df0'' = Some left_col \<and> mc (df_key i) = Some right_col
         \<and> getitem_col running left_col = Inr lk
         \<and> getitem_col (fs ! i) right_col = Inr rk
         \<and> new_rows_per_file stats i
             = Some (card (set (series_items Right_series rk) - set (series_items Left_series lk)))
         \<and> missing_rows_per_file stats i
             = Some (card (set (series_items Left_series lk) - set (series_items Right_series rk)))"
proof -
  from merge_dataframes_Inr[OF ok] fs obtain new missing where
    ne: "fs \<noteq> []"
    and loop: "merge_loop J mc how 1 (tl fs) (hd fs, Map.empty, Map.empty) = Inr (result, new, missing)"
    and st: "new_rows_per_file stats = new" "missing_rows_per_file stats = missing"
    by auto
  define rest where "rest = tl fs"
  have len: "i - 1 < length rest" using i ne by (simp add: rest_def)
  have nth: "rest ! (i - 1) = fs ! i" using i ne by (cases fs) (auto simp: rest_def nth_Cons')
  have split: "rest = take (i - 1) rest @ (fs ! i) # drop i rest"
    using len nth i id_take_nth_drop[of "i - 1" rest] by simp
  have "merge_loop J mc how 1 (take (i - 1) rest @ (fs ! i) # drop i rest) (hd fs, Map.empty, Map.empty)
          = Inr (result, new, missing)"
    using loop split by (simp add: rest_def)
  then obtain run n1 m1 where
    pre: "merge_loop J mc how 1 (take (i - 1) rest) (hd fs, Map.empty, Map.empty) = Inr (run, n1, m1)"
    and post: "merge_loop J mc how i ((fs ! i) # drop i rest) (run, n1, m1) = Inr (result, new, missing)"
    using len i by (auto simp: merge_loop_append min_def split: sum.splits)
  from post obtain lc rc r2 n2 m2 where
    lc: "mc ''df0'' = Some lc" and rc: "mc (df_key i) = Some rc"
    and step: "merge_step J how lc rc i (fs ! i) (run, n1, m1) = Inr (r2, n2, m2)"
    and fin: "merge_loop J mc how (Suc i) (drop i rest) (r2, n2, m2) = Inr (result, new, missing)"
    by (auto split: option.splits sum.splits)
  from merge_step_Inr[OF step] obtain lk rk where
    k: "getitem_col run lc = Inr lk" "getitem_col (fs ! i) rc = Inr rk"
       "n2 = n1(i \<mapsto> card (set (series_items Right_series rk) - set (series_items Left_series lk)))"
       "m2 = m1(i \<mapsto> card (set (series_items Left_series lk) - set (series_items Right_series rk)))"
    by blast
  from merge_loop_keeps[OF fin, of i] have "new i = n2 i" "missing i = m2 i" by simp_all
  with k st have
    "new_rows_per_file stats i
       = Some (card (set (series_items Right_series rk) - set (series_items Left_series lk)))"
    "missing_rows_per_file stats i
       = Some (card (set (series_items Left_series lk) - set (series_items Right_series rk)))"
    by simp_all
  with pre lc rc k show ?thesis
    unfolding loop_prefix_def rest_def by blast
qed

text \<open>
  On key columns without a null cell the elements of the two sets are the values of
  the cells, and the counts are those of the distinct values of one column that do not
  occur in the other.
\<close>

lemma series_items_null_free:
  "VNull \<notin> set xs \<Longrightarrow> series_items s xs = map Item xs"
proof -
  assume n: "VNull \<notin> set xs"
  have "\<And>k. VNull \<notin> set ys \<Longrightarrow>
          map (\<lambda>(j, x). if x = VNull then (if b then Fresh_nan s j else Shared_null) else Item x)
              (enumerate k ys) = map Item ys" for ys b
    by (induction ys) auto
  with n show ?thesis by (simp add: series_items_def)
qed

lemma key_count_null_free:
  assumes "VNull \<notin> set lk" "VNull \<notin> set rk"
  shows "card (set (series_items Right_series rk) - set (series_items Left_series lk))
           = card (set rk - set lk)"
    and "card (set (series_items Left_series lk) - set (series_items Right_series rk))
           = card (set lk - set rk)"
proof -
  have inj: "inj Item" by (simp add: inj_def)
  have d: "Item ` A - Item ` B = Item ` (A - B)" for A B :: "val set"
    by auto
  show "card (set (series_items Right_series rk) - set (series_items Left_series lk))
           = card (set rk - set lk)"
    using assms by (simp add: series_items_null_free d card_image inj_on_def)
  show "card (set (series_items Left_series lk) - set (series_items Right_series rk))
           = card (set lk - set rk)"
    using assms by (simp add: series_items_null_free d card_image inj_on_def)
qed

text \<open>
  C1. Three tables without any null, keyed by id, key and kk, merged in mode outer.
  The first join leaves the running result with the key column 1, 2, null, null: the
  two rows that came from the second table have no id. It holds three distinct values,
  none of which occurs in the key column of the third table, but the count recorded
  as missing rows for step 2 is 4: each null cell is counted on its own. The counts of
  step 1, where no null is involved, are those of the distinct values.
\<close>

theorem merge_stats_null_cells:
  "merge_dataframes sorted_order pd_merge [ex_P, ex_Q, ex_R] ex_chain_columns ex_chain_selected
       [''p.csv'', ''q.csv'', ''r.csv''] ''outer''
     = Inr (\<lparr>cols = [''id''], rows = [[VInt 1], [VInt 2], [VNull], [VNull], [VNull]]\<rparr>,
            \<lparr>total_rows_original = 5,
             new_rows_per_file = [1 \<mapsto> 2, 2 \<mapsto> 1],
             missing_rows_per_file = [1 \<mapsto> 2, 2 \<mapsto> 4],
             total_rows_merged = 5\<rparr>)
   \<and> loop_prefix pd_merge ex_chain_columns ''outer''
         [\<lparr>cols = [''id''], rows = [[VInt 1], [VInt 2]]\<rparr>,
          \<lparr>cols = [''key''], rows = [[VInt 3], [VInt 4]]\<rparr>,
          \<lparr>cols = [''kk''], rows = [[VInt 5]]\<rparr>] 1
       = Inr (\<lparr>cols = [''id''], rows = [[VInt 1], [VInt 2], [VNull], [VNull]]\<rparr>,
              [1 \<mapsto> 2], [1 \<mapsto> 2])
   \<and> card (set [VInt 1, VInt 2, VNull, VNull] - set [VInt 5]) = 3"
proof (intro conjI)
  show "merge_dataframes sorted_order pd_merge [ex_P, ex_Q, ex_R] ex_chain_columns ex_chain_selected
       [''p.csv'', ''q.csv'', ''r.csv''] ''outer''
     = Inr (\<lparr>cols = [''id''], rows = [[VInt 1], [VInt 2], [VNull], [VNull], [VNull]]\<rparr>,
            \<lparr>total_rows_original = 5,
             new_rows_per_file = [1 \<mapsto> 2, 2 \<mapsto> 1],
             missing_rows_per_file = [1 \<mapsto> 2, 2 \<mapsto> 4],
             total_rows_merged = 5\<rparr>)"
    unfolding merge_dataframes_def chain_filtered
    by (simp add: chain_step_1 chain_step_2 ex_chain_columns_def df_key_Suc_0 df_key_2
        len_df_def ex_P_def ex_Q_def ex_R_def eval_nat_numeral)
  show "loop_prefix pd_merge ex_chain_columns ''outer''
         [\<lparr>cols = [''id''], rows = [[VInt 1], [VInt 2]]\<rparr>,
          \<lparr>cols = [''key''], rows = [[VInt 3], [VInt 4]]\<rparr>,
          \<lparr>cols = [''kk''], rows = [[VInt 5]]\<rparr>] 1
       = Inr (\<lparr>cols = [''id''], rows = [[VInt 1], [VInt 2], [VNull], [VNull]]\<rparr>,
              [1 \<mapsto> 2], [1 \<mapsto> 2])"
    by (simp add: loop_prefix_def chain_step_1 ex_chain_columns_def df_key_Suc_0 eval_nat_numeral)
  show "card (set [VInt 1, VInt 2, VNull, VNull] - set [VInt 5]) = 3"
    by (simp add: insert_Diff_if)
qed

section \<open>The scenario\<close>

text \<open>
  C3. Tables A and B of the scenario, labels A and B, key id on both sides, every
  column selected, mode outer, and any order in which the two selection sets are
  enumerated: the merge succeeds; the columns of the result are id, A_name and B_val;
  read under these labels its rows are (1, a, null), (2, b, 10) and (3, null, 20); the
  statistics are 1 new and 1 missing row for table 1, 4 original rows and 3 merged rows.
\<close>

theorem merge_dataframes_scenario:
  assumes "set (so {''id'', ''name''}) = {''id'', ''name''}" "distinct (so {''id'', ''name''})"
      and "set (so {''id'', ''val''}) = {''id'', ''val''}" "distinct (so {''id'', ''val''})"
  shows "\<exists>result stats.
           merge_dataframes so pd_merge [ex_A, ex_B] ex_merge_columns ex_selected_columns
               [''A'', ''B''] ''outer'' = Inr (result, stats)
         \<and> set (cols result) = {''id'', ''A_name'', ''B_val''} \<and> length (cols result) = 3
         \<and> set (rows_by [''id'', ''A_name'', ''B_val''] result)
             = {[VInt 1, VStr ''a'', VNull], [VInt 2, VStr ''b'', VInt 10], [VInt 3, VNull, VInt 20]}
         \<and> new_rows_per_file stats 1 = Some 1 \<and> missing_rows_per_file stats 1 = Some 1
         \<and> total_rows_original stats = 4 \<and> total_rows_merged stats = 3"
proof -
  have a: "so {''id'', ''name''} = [''id'', ''name''] \<or> so {''id'', ''name''} = [''name'', ''id'']"
    using assms(1,2) by (intro two_element_list) simp_all
  have b: "so {''id'', ''val''} = [''id'', ''val''] \<or> so {''id'', ''val''} = [''val'', ''id'']"
    using assms(3,4) by (intro two_element_list) simp_all
  from a b show ?thesis by (rule scenario_case)
qed

theorem merge_dataframes_scenario_witness:
  "set (sorted_order {''id'', ''name''}) = {''id'', ''name''}
   \<and> distinct (sorted_order {''id'', ''name''})
   \<and> set (sorted_order {''id'', ''val''}) = {''id'', ''val''}
   \<and> distinct (sorted_order {''id'', ''val''})
   \<and> (\<exists>result stats.
           merge_dataframes sorted_order pd_merge [ex_A, ex_B] ex_merge_columns ex_selected_columns
               [''A'', ''B''] ''outer'' = Inr (result, stats)
         \<and> set (cols result) = {''id'', ''A_name'', ''B_val''} \<and> length (cols result) = 3
         \<and> set (rows_by [''id'', ''A_name'', ''B_val''] result)
             = {[VInt 1, VStr ''a'', VNull], [VInt 2, VStr ''b'', VInt 10], [VInt 3, VNull, VInt 20]}
         \<and> new_rows_per_file stats 1 = Some 1 \<and> missing_rows_per_file stats 1 = Some 1
         \<and> total_rows_original stats = 4 \<and> total_rows_merged stats = 3)"
proof -
  have h: "set (sorted_order {''id'', ''name''}) = {''id'', ''name''}"
    "distinct (sorted_order {''id'', ''name''})"
    "set (sorted_order {''id'', ''val''}) = {''id'', ''val''}"
    "distinct (sorted_order {''id'', ''val''})"
    by (simp_all add: sorted_order_def)
  from h merge_dataframes_scenario [OF h] show ?thesis by blast
qed

section \<open>Row totals\<close>

text \<open>
  C8. Whenever a merge succeeds (so there are at least two tables), whatever the mode
  and the selections: total_rows_original is the sum of the row counts of all the
  tables as they were passed in, and total_rows_merged is the row count of the
  returned table.
\<close>

theorem merge_dataframes_totals:
  assumes "merge_dataframes so J dfs mc sel names how = Inr (result, stats)"
  shows "2 \<le> length dfs
       \<and> total_rows_original stats = sum_list (map len_df dfs)
       \<and> total_rows_merged stats = len_df result"
  using merge_dataframes_Inr [OF assms] by auto

theorem merge_dataframes_totals_witness:
  "merge_dataframes sorted_order pd_merge [ex_A, ex_B] ex_merge_columns ex_selected_columns
       [''A'', ''B''] ''outer''
     = Inr (\<lparr>cols = [''id'', ''A_name'', ''B_val''],
              rows = [[VInt 1, VStr ''a'', VNull], [VInt 2, VStr ''b'', VInt 10],
                      [VInt 3, VNull, VInt 20]]\<rparr>,
            \<lparr>total_rows_original = 4, new_rows_per_file = [1 \<mapsto> 1],
             missing_rows_per_file = [1 \<mapsto> 1], total_rows_merged = 3\<rparr>)
   \<and> 2 \<le> length [ex_A, ex_B]
   \<and> (4::nat) = sum_list (map len_df [ex_A, ex_B])
   \<and> (3::nat) = len_df \<lparr>cols = [''id'', ''A_name'', ''B_val''],
              rows = [[VInt 1, VStr ''a'', VNull], [VInt 2, VStr ''b'', VInt 10],
                      [VInt 3, VNull, VInt 20]]\<rparr>"
  using merge_dataframes_totals [OF scenario_sorted] scenario_sorted by simp

section \<open>The key column survives projection\<close>

text \<open>
  C9. Let \<open>k\<close> be the key column chosen for table \<open>i\<close>, and let the selection for table
  \<open>i\<close> be any set of columns of the table, with or without \<open>k\<close>, the empty set and a missing
  entry included. If \<open>k\<close> is a column of the table, the projection of table \<open>i\<close> is built
  and has the column \<open>k\<close>, under its own name.
\<close>

theorem filter_df_keeps_key:
  assumes "mc (df_key i) = Some k"
      and "selected = (case sel (df_key i) of None \<Rightarrow> {} | Some s \<Rightarrow> s)"
      and "set (so (selected \<union> {k})) = selected \<union> {k}"
      and "selected \<subseteq> set (cols df)" "k \<in> set (cols df)"
  shows "\<exists>projected. filter_df so mc sel i df label = Inr projected \<and> k \<in> set (cols projected)"
proof -
  have "filter (\<lambda>c. c \<notin> set (cols df)) (so (selected \<union> {k})) = []"
    using assms(3,4,5) by (auto simp: filter_empty_conv)
  then obtain t where t: "getitem_cols df (so (selected \<union> {k})) = Inr t"
    and c: "cols t = so (selected \<union> {k})"
    by (simp add: getitem_cols_def)
  have "k \<in> set (cols t)" using c assms(3) by simp
  then have "k \<in> set (cols (rename_columns (rename_dict label k) t))"
    by (force simp: rename_columns_def rename_dict_def)
  with t assms(1,2) show ?thesis
    by (simp add: filter_df_def Let_def)
qed

theorem filter_df_keeps_key_witness:
  "ex_merge_columns (df_key 0) = Some ''id''
   \<and> {} = (case ex_deselected (df_key 0) of None \<Rightarrow> {} | Some s \<Rightarrow> s)
   \<and> set (sorted_order ({} \<union> {''id''})) = {} \<union> {''id''}
   \<and> {} \<subseteq> set (cols ex_A) \<and> ''id'' \<in> set (cols ex_A)
   \<and> (\<exists>projected. filter_df sorted_order ex_merge_columns ex_deselected 0 ex_A ''A'' = Inr projected
         \<and> ''id'' \<in> set (cols projected))"
proof -
  have h: "ex_merge_columns (df_key 0) = Some ''id''"
    "{} = (case ex_deselected (df_key 0) of None \<Rightarrow> {} | Some s \<Rightarrow> s)"
    "set (sorted_order ({} \<union> {''id''})) = {} \<union> {''id''}"
    "{} \<subseteq> set (cols ex_A)" "''id'' \<in> set (cols ex_A)"
    by (simp_all add: ex_merge_columns_def ex_deselected_def df_key_0 sorted_order_def ex_A_def)
  have "\<exists>projected. filter_df sorted_order ex_merge_columns ex_deselected 0 ex_A ''A'' = Inr projected
         \<and> ''id'' \<in> set (cols projected)"
    using h
    by (intro filter_df_keeps_key [where mc = ex_merge_columns and i = 0 and k = "''id''"
          and sel = "ex_deselected" and selected = "{}" and so = sorted_order and df = ex_A
          and label = "''A''"])
  with h show ?thesis by blast
qed

section \<open>Column prefixes\<close>

text \<open>
  C2. The prefix of a renamed column is the label up to its first dot. For the label
  orders.csv the column X becomes orders_X and the key column keeps its name. For a
  label with a dot inside its stem, sales.2024.csv, the prefix is sales: everything
  after the first dot is removed, not only the extension.
\<close>

theorem rename_prefix_first_dot:
  "rename_dict ''orders.csv'' ''id'' ''X'' = ''orders_X''
   \<and> rename_dict ''orders.csv'' ''id'' ''id'' = ''id''
   \<and> rename_dict ''sales.2024.csv'' ''id'' ''X'' = ''sales_X''
   \<and> filter_df sorted_order ex_merge_columns ex_selected_columns 0 ex_A ''sales.2024.csv''
       = Inr \<lparr>cols = [''id'', ''sales_name''],
               rows = [[VInt 1, VStr ''a''], [VInt 2, VStr ''b'']]\<rparr>"
  by (simp add: rename_dict_def split_dot_0_def filter_df_def df_key_0 ex_merge_columns_def
      ex_selected_columns_def sorted_order_id_name ex_A_def getitem_cols_def rename_columns_def)

section \<open>The export encoder\<close>

text \<open>
  C4, as the code has it. For the format csv the table is written as CSV without the
  row index and the MIME type is text/csv. For every other format string the table is
  written as a spreadsheet without the row index and the MIME type is that of a
  spreadsheet. No format string makes the function fail.
\<close>

theorem get_download_buffer_formats:
  "(file_format = ''csv'' \<longrightarrow>
      get_download_buffer df file_format = (To_csv df False, ''text/csv''))
   \<and> (file_format \<noteq> ''csv'' \<longrightarrow>
      get_download_buffer df file_format =
        (To_excel df False,
         ''application/vnd.openxmlformats-officedocument.spreadsheetml.sheet''))"
  by (simp add: get_download_buffer_def)

theorem get_download_buffer_formats_witness:
  "''csv'' = ''csv''
   \<and> get_download_buffer ex_A ''csv'' = (To_csv ex_A False, ''text/csv'')
   \<and> ''xlsx'' \<noteq> ''csv''
   \<and> get_download_buffer ex_A ''xlsx'' =
        (To_excel ex_A False,
         ''application/vnd.openxmlformats-officedocument.spreadsheetml.sheet'')"
  using get_download_buffer_formats [of "''csv''" ex_A]
    get_download_buffer_formats [of "''xlsx''" ex_A]
  by simp

text \<open>The format json is not refused: it gives a spreadsheet.\<close>

theorem get_download_buffer_json:
  "get_download_buffer ex_A ''json'' =
     (To_excel ex_A False,
      ''application/vnd.openxmlformats-officedocument.spreadsheetml.sheet'')"
  by (simp add: get_download_buffer_def)

section \<open>The loader\<close>

text \<open>
  C5, as the code has it. A file whose name ends in none of .csv, .xls and .xlsx
  fails with a ValueError whose text is the prefix of the handler followed by
  Unsupported file format. A file whose parser fails gives a ValueError with the same
  prefix followed by the text of the cause. Both failures have the same class.
\<close>

theorem read_file_errors:
  "(\<not> endswith (name f) ''.csv'' \<and> \<not> endswith (name f) ''.xls'' \<and> \<not> endswith (name f) ''.xlsx''
      \<longrightarrow> read_file read_csv read_excel f
            = Inl (ValueError ''Error reading file: Unsupported file format''))
   \<and> (endswith (name f) ''.csv'' \<and> read_csv (content f) = Inl e
      \<longrightarrow> read_file read_csv read_excel f
            = Inl (ValueError (''Error reading file: '' @ str_exn e)))
   \<and> (\<not> endswith (name f) ''.csv''
        \<and> (endswith (name f) ''.xls'' \<or> endswith (name f) ''.xlsx'')
        \<and> read_excel (content f) = Inl e
      \<longrightarrow> read_file read_csv read_excel f
            = Inl (ValueError (''Error reading file: '' @ str_exn e)))"
  by (simp add: read_file_def)

theorem read_file_errors_witness:
  "(\<not> endswith (name ex_txt_file) ''.csv'' \<and> \<not> endswith (name ex_txt_file) ''.xls''
      \<and> \<not> endswith (name ex_txt_file) ''.xlsx'')
   \<and> read_file ex_failing_parser ex_failing_parser ex_txt_file
         = Inl (ValueError ''Error reading file: Unsupported file format'')
   \<and> (endswith (name ex_csv_file) ''.csv''
      \<and> ex_failing_parser (content ex_csv_file) = Inl (OtherError ''No columns to parse from file''))
   \<and> read_file ex_failing_parser ex_failing_parser ex_csv_file
         = Inl (ValueError (''Error reading file: '' @ str_exn (OtherError ''No columns to parse from file'')))
   \<and> (\<not> endswith (name ex_xlsx_file) ''.csv''
      \<and> (endswith (name ex_xlsx_file) ''.xls'' \<or> endswith (name ex_xlsx_file) ''.xlsx'')
      \<and> ex_failing_parser (content ex_xlsx_file) = Inl (OtherError ''No columns to parse from file''))
   \<and> read_file ex_failing_parser ex_failing_parser ex_xlsx_file
         = Inl (ValueError (''Error reading file: '' @ str_exn (OtherError ''No columns to parse from file'')))"
proof -
  have t: "\<not> endswith (name ex_txt_file) ''.csv'' \<and> \<not> endswith (name ex_txt_file) ''.xls''
      \<and> \<not> endswith (name ex_txt_file) ''.xlsx''"
    by (simp add: endswith_def ex_txt_file_def)
  have c: "endswith (name ex_csv_file) ''.csv''
      \<and> ex_failing_parser (content ex_csv_file) = Inl (OtherError ''No columns to parse from file'')"
    by (simp add: endswith_def ex_csv_file_def ex_failing_parser_def)
  have x: "\<not> endswith (name ex_xlsx_file) ''.csv''
      \<and> (endswith (name ex_xlsx_file) ''.xls'' \<or> endswith (name ex_xlsx_file) ''.xlsx'')
      \<and> ex_failing_parser (content ex_xlsx_file) = Inl (OtherError ''No columns to parse from file'')"
    by (simp add: endswith_def ex_xlsx_file_def ex_failing_parser_def)
  from t c x
    read_file_errors [where f = ex_txt_file and read_csv = ex_failing_parser
      and read_excel = ex_failing_parser and e = "OtherError ''No columns to parse from file''"]
    read_file_errors [where f = ex_csv_file and read_csv = ex_failing_parser
      and read_excel = ex_failing_parser and e = "OtherError ''No columns to parse from file''"]
    read_file_errors [where f = ex_xlsx_file and read_csv = ex_failing_parser
      and read_excel = ex_failing_parser and e = "OtherError ''No columns to parse from file''"]
  show ?thesis by blast
qed

text \<open>
  An unsupported name and a file that does not parse both end in a ValueError with the
  same prefix: no separate error kind tells them apart.
\<close>

theorem read_file_same_error_class:
  "read_file ex_failing_parser ex_failing_parser ex_txt_file
     = Inl (ValueError ''Error reading file: Unsupported file format'')
   \<and> read_file ex_failing_parser ex_failing_parser ex_csv_file
     = Inl (ValueError ''Error reading file: No columns to parse from file'')"
  by (simp add: read_file_def endswith_def ex_txt_file_def ex_csv_file_def ex_failing_parser_def)

section \<open>A key column that the table does not have\<close>

lemma filter_df_error:
  "filter_df so mc sel i df label = Inl e \<Longrightarrow> \<exists>c. e = KeyError c"
  by (auto simp: filter_df_def getitem_cols_def Let_def split: option.splits list.splits)

lemma filter_dfs_error:
  "filter_dfs so mc sel i zs = Inl e \<Longrightarrow> \<exists>c. e = KeyError c"
proof (induction zs arbitrary: i)
  case Nil
  then show ?case by simp
next
  case (Cons z zs)
  obtain df label where z: "z = (df, label)" by (cases z)
  from Cons.prems z show ?case
    by (auto split: sum.splits dest: filter_df_error Cons.IH)
qed

lemma filter_df_absent_key:
  assumes "mc (df_key i) = Some k" "k \<notin> set (cols df)"
      and "k \<in> set (so ((case sel (df_key i) of None \<Rightarrow> {} | Some s \<Rightarrow> s) \<union> {k}))"
  shows "\<exists>e. filter_df so mc sel i df label = Inl e"
proof -
  have "filter (\<lambda>c. c \<notin> set (cols df)) (so ((case sel (df_key i) of None \<Rightarrow> {} | Some s \<Rightarrow> s) \<union> {k})) \<noteq> []"
    using assms(2,3) by (auto simp: filter_empty_conv)
  then show ?thesis using assms(1)
    by (auto simp: filter_df_def getitem_cols_def Let_def split: list.splits)
qed

lemma filter_dfs_fails:
  "n < length zs \<Longrightarrow> filter_df so mc sel (j + n) (fst (zs ! n)) (snd (zs ! n)) = Inl e \<Longrightarrow>
     \<exists>e'. filter_dfs so mc sel j zs = Inl e'"
proof (induction zs arbitrary: j n)
  case Nil
  then show ?case by simp
next
  case (Cons z zs)
  obtain df label where z: "z = (df, label)" by (cases z)
  show ?case
  proof (cases n)
    case 0
    with Cons.prems z show ?thesis by simp
  next
    case (Suc m)
    with Cons.prems have "m < length zs"
      "filter_df so mc sel (Suc j + m) (fst (zs ! m)) (snd (zs ! m)) = Inl e" by simp_all
    from Cons.IH[OF this] obtain e' where "filter_dfs so mc sel (Suc j) zs = Inl e'" by blast
    with z show ?thesis by (auto split: sum.splits)
  qed
qed

lemma merge_loop_abort:
  assumes "merge_loop J mc how j pre st = Inr st1"
      and "mc ''df0'' = Some lc" "mc (df_key (j + length pre)) = Some rc"
      and "merge_step J how lc rc (j + length pre) df st1 = Inl e"
  shows "merge_loop J mc how j (pre @ df # rest) st
           = Inl (ValueError (''Error merging DataFrames: '' @ str_exn e))"
  using assms by (simp add: merge_loop_append)

text \<open>
  C6, as the code has it. When the key column chosen for a labelled table is not a
  column of that table, the merge fails in the first loop with the bare KeyError of the
  column selection: this error is not wrapped, and no table is returned. The wrapping
  belongs to the second loop only: when the body of a merge step fails, the whole merge
  fails with a ValueError whose text is Error merging DataFrames followed by the text
  of the cause, and no table is returned.
\<close>

theorem merge_dataframes_absent_key:
  "(2 \<le> length dfs \<and> i < length dfs \<and> i < length df_names
      \<and> mc (df_key i) = Some k \<and> k \<notin> set (cols (dfs ! i))
      \<and> k \<in> set (so ((case sel (df_key i) of None \<Rightarrow> {} | Some s \<Rightarrow> s) \<union> {k}))
    \<longrightarrow> (\<exists>c. merge_dataframes so J dfs mc sel df_names how = Inl (KeyError c)))
   \<and> (2 \<le> length dfs \<and> filter_dfs so mc sel 0 (zip dfs df_names) = Inr fs
      \<and> 1 \<le> j \<and> j < length fs
      \<and> loop_prefix J mc how fs (j - 1) = Inr st
      \<and> mc ''df0'' = Some lc \<and> mc (df_key j) = Some rc
      \<and> merge_step J how lc rc j (fs ! j) st = Inl e
    \<longrightarrow> merge_dataframes so J dfs mc sel df_names how
          = Inl (ValueError (''Error merging DataFrames: '' @ str_exn e)))"
proof (intro conjI impI)
  assume a: "2 \<le> length dfs \<and> i < length dfs \<and> i < length df_names
      \<and> mc (df_key i) = Some k \<and> k \<notin> set (cols (dfs ! i))
      \<and> k \<in> set (so ((case sel (df_key i) of None \<Rightarrow> {} | Some s \<Rightarrow> s) \<union> {k}))"
  then obtain e where "filter_df so mc sel i (dfs ! i) (df_names ! i) = Inl e"
    using filter_df_absent_key[of mc i k "dfs ! i" so sel "df_names ! i"] by blast
  then have "filter_df so mc sel (0 + i) (fst (zip dfs df_names ! i)) (snd (zip dfs df_names ! i)) = Inl e"
    using a by simp
  moreover have "i < length (zip dfs df_names)" using a by simp
  ultimately obtain e' where e': "filter_dfs so mc sel 0 (zip dfs df_names) = Inl e'"
    using filter_dfs_fails by blast
  from filter_dfs_error[OF e'] obtain c where "e' = KeyError c" by blast
  with e' a show "\<exists>c. merge_dataframes so J dfs mc sel df_names how = Inl (KeyError c)"
    by (auto simp: merge_dataframes_def)
next
  assume b: "2 \<le> length dfs \<and> filter_dfs so mc sel 0 (zip dfs df_names) = Inr fs
      \<and> 1 \<le> j \<and> j < length fs
      \<and> loop_prefix J mc how fs (j - 1) = Inr st
      \<and> mc ''df0'' = Some lc \<and> mc (df_key j) = Some rc
      \<and> merge_step J how lc rc j (fs ! j) st = Inl e"
  then have len2: "2 \<le> length dfs"
    and fs: "filter_dfs so mc sel 0 (zip dfs df_names) = Inr fs"
    and j1: "1 \<le> j" and jl: "j < length fs"
    and pf: "loop_prefix J mc how fs (j - 1) = Inr st"
    and lc: "mc ''df0'' = Some lc" and rc: "mc (df_key j) = Some rc"
    and step: "merge_step J how lc rc j (fs ! j) st = Inl e"
    by simp_all
  from jl have ne: "fs \<noteq> []" by auto
  define rest where "rest = tl fs"
  have len: "j - 1 < length rest" using j1 jl ne by (simp add: rest_def)
  have nth: "rest ! (j - 1) = fs ! j" using j1 jl ne by (cases fs) (auto simp: rest_def nth_Cons')
  have split: "rest = take (j - 1) rest @ (fs ! j) # drop j rest"
    using len nth j1 id_take_nth_drop[of "j - 1" rest] by simp
  have pre: "merge_loop J mc how 1 (take (j - 1) rest) (hd fs, Map.empty, Map.empty) = Inr st"
    using pf by (simp add: loop_prefix_def rest_def)
  have idx: "1 + length (take (j - 1) rest) = j" using len j1 by simp
  have rc': "mc (df_key (1 + length (take (j - 1) rest))) = Some rc"
    using rc by (simp only: idx)
  have step': "merge_step J how lc rc (1 + length (take (j - 1) rest)) (fs ! j) st = Inl e"
    using step by (simp only: idx)
  have "merge_loop J mc how 1 (take (j - 1) rest @ (fs ! j) # drop j rest) (hd fs, Map.empty, Map.empty)
          = Inl (ValueError (''Error merging DataFrames: '' @ str_exn e))"
    by (rule merge_loop_abort[OF pre lc rc' step'])
  then have "merge_loop J mc how 1 rest (hd fs, Map.empty, Map.empty)
          = Inl (ValueError (''Error merging DataFrames: '' @ str_exn e))"
    using split by simp
  with len2 fs ne show "merge_dataframes so J dfs mc sel df_names how
          = Inl (ValueError (''Error merging DataFrames: '' @ str_exn e))"
    by (cases fs) (auto simp: merge_dataframes_def rest_def)
qed

theorem merge_dataframes_absent_key_witness:
  "(2 \<le> length [ex_A, ex_B] \<and> 1 < length [ex_A, ex_B] \<and> 1 < length [''A'', ''B'']
      \<and> ex_absent_key (df_key 1) = Some ''key'' \<and> ''key'' \<notin> set (cols ([ex_A, ex_B] ! 1))
      \<and> ''key'' \<in> set (sorted_order
            ((case ex_selected_columns (df_key 1) of None \<Rightarrow> {} | Some s \<Rightarrow> s) \<union> {''key''})))
   \<and> (\<exists>c. merge_dataframes sorted_order pd_merge [ex_A, ex_B] ex_absent_key ex_selected_columns
              [''A'', ''B''] ''outer'' = Inl (KeyError c))
   \<and> (2 \<le> length [ex_A, ex_B]
      \<and> filter_dfs sorted_order ex_merge_columns ex_selected_columns 0
            (zip [ex_A, ex_B] [''A'', ''B'']) = Inr [ex_A_projected, ex_B_projected]
      \<and> (1::nat) \<le> 1 \<and> 1 < length [ex_A_projected, ex_B_projected]
      \<and> loop_prefix pd_merge ex_merge_columns ''cross'' [ex_A_projected, ex_B_projected] (1 - 1)
            = Inr (ex_A_projected, Map.empty, Map.empty)
      \<and> ex_merge_columns ''df0'' = Some ''id'' \<and> ex_merge_columns (df_key 1) = Some ''id''
      \<and> merge_step pd_merge ''cross'' ''id'' ''id'' 1 ([ex_A_projected, ex_B_projected] ! 1)
            (ex_A_projected, Map.empty, Map.empty)
          = Inl (OtherError ''cross is not a valid Merge type''))
   \<and> merge_dataframes sorted_order pd_merge [ex_A, ex_B] ex_merge_columns ex_selected_columns
          [''A'', ''B''] ''cross''
       = Inl (ValueError (''Error merging DataFrames: ''
                @ str_exn (OtherError ''cross is not a valid Merge type'')))"
proof -
  have a: "2 \<le> length [ex_A, ex_B] \<and> 1 < length [ex_A, ex_B] \<and> 1 < length [''A'', ''B'']
      \<and> ex_absent_key (df_key 1) = Some ''key'' \<and> ''key'' \<notin> set (cols ([ex_A, ex_B] ! 1))
      \<and> ''key'' \<in> set (sorted_order
            ((case ex_selected_columns (df_key 1) of None \<Rightarrow> {} | Some s \<Rightarrow> s) \<union> {''key''}))"
    by (simp add: ex_absent_key_def df_key_Suc_0 ex_B_def ex_selected_columns_def sorted_order_def)
  have b1: "filter_dfs sorted_order ex_merge_columns ex_selected_columns 0
            (zip [ex_A, ex_B] [''A'', ''B'']) = Inr [ex_A_projected, ex_B_projected]"
    unfolding ex_A_projected_def ex_B_projected_def by (rule scenario_filtered)
  have b2: "loop_prefix pd_merge ex_merge_columns ''cross'' [ex_A_projected, ex_B_projected] (1 - 1)
            = Inr (ex_A_projected, Map.empty, Map.empty)"
    by (simp add: loop_prefix_def)
  have b3: "ex_merge_columns ''df0'' = Some ''id'' \<and> ex_merge_columns (df_key 1) = Some ''id''"
    by (simp add: ex_merge_columns_def df_key_Suc_0)
  have b4: "merge_step pd_merge ''cross'' ''id'' ''id'' 1 ([ex_A_projected, ex_B_projected] ! 1)
            (ex_A_projected, Map.empty, Map.empty)
          = Inl (OtherError ''cross is not a valid Merge type'')"
    by (simp add: ex_A_projected_def ex_B_projected_def merge_step_def getitem_col_def series_items_def numeric_column_def pd_merge_def)
  have b: "2 \<le> length [ex_A, ex_B]
      \<and> filter_dfs sorted_order ex_merge_columns ex_selected_columns 0
            (zip [ex_A, ex_B] [''A'', ''B'']) = Inr [ex_A_projected, ex_B_projected]
      \<and> (1::nat) \<le> 1 \<and> 1 < length [ex_A_projected, ex_B_projected]
      \<and> loop_prefix pd_merge ex_merge_columns ''cross'' [ex_A_projected, ex_B_projected] (1 - 1)
            = Inr (ex_A_projected, Map.empty, Map.empty)
      \<and> ex_merge_columns ''df0'' = Some ''id'' \<and> ex_merge_columns (df_key 1) = Some ''id''
      \<and> merge_step pd_merge ''cross'' ''id'' ''id'' 1 ([ex_A_projected, ex_B_projected] ! 1)
            (ex_A_projected, Map.empty, Map.empty)
          = Inl (OtherError ''cross is not a valid Merge type'')"
    using b1 b2 b3 b4 by (intro conjI) simp_all
  from a b
    merge_dataframes_absent_key [where dfs = "[ex_A, ex_B]" and i = 1 and df_names = "[''A'', ''B'']"
      and mc = ex_absent_key and k = "''key''" and so = sorted_order and sel = ex_selected_columns
      and J = pd_merge and how = "''outer''"]
    merge_dataframes_absent_key [where dfs = "[ex_A, ex_B]" and df_names = "[''A'', ''B'']"
      and mc = ex_merge_columns and so = sorted_order and sel = ex_selected_columns
      and J = pd_merge and how = "''cross''" and fs = "[ex_A_projected, ex_B_projected]"
      and j = 1 and st = "(ex_A_projected, Map.empty, Map.empty)" and lc = "''id''"
      and rc = "''id''" and e = "OtherError ''cross is not a valid Merge type''"]
  show ?thesis by blast
qed

text \<open>
  Table B has no column key: the merge ends with KeyError, not with the wrapped error
  of a merge step.
\<close>

theorem merge_dataframes_absent_key_unwrapped:
  "merge_dataframes sorted_order pd_merge [ex_A, ex_B] ex_absent_key ex_selected_columns
       [''A'', ''B''] ''outer'' = Inl (KeyError ''key'')"
  apply (simp add: merge_dataframes_def)
  apply (simp add: filter_df_def df_key_0 df_key_Suc_0 ex_absent_key_def ex_selected_columns_def
      sorted_order_def ex_A_def ex_B_def getitem_cols_def rename_columns_def rename_dict_def
      split_dot_0_def)
  done

section \<open>Fewer labels than tables\<close>

lemma merge_dataframes_unfold:
  "2 \<le> length dfs \<Longrightarrow>
   merge_dataframes so J dfs mc sel df_names how =
     (case filter_dfs so mc sel 0 (zip dfs df_names) of
        Inl e \<Rightarrow> Inl e
      | Inr fs \<Rightarrow>
          (case fs of
             [] \<Rightarrow> Inl (IndexError ''list index out of range'')
           | result0 # rest \<Rightarrow>
               (case merge_loop J mc how 1 rest (result0, Map.empty, Map.empty) of
                  Inl e \<Rightarrow> Inl e
                | Inr (result, new, missing) \<Rightarrow>
                    Inr (result,
                         \<lparr>total_rows_original = sum_list (map len_df dfs),
                          new_rows_per_file = new,
                          missing_rows_per_file = missing,
                          total_rows_merged = len_df result\<rparr>))))"
  by (auto simp: merge_dataframes_def)

lemma one_label_two_tables:
  "merge_dataframes sorted_order pd_merge ([ex_A] @ [ex_B]) ex_merge_columns ex_selected_columns
       [''A''] ''outer''
     = Inr (ex_A_projected,
            \<lparr>total_rows_original = 4, new_rows_per_file = Map.empty,
             missing_rows_per_file = Map.empty, total_rows_merged = 2\<rparr>)"
  apply (simp add: merge_dataframes_def filter_ex_A sorted_order_id_name)
  apply (simp add: len_df_def ex_A_def ex_B_def ex_A_projected_def)
  done

text \<open>
  C10, as the code has it. Let the list of labels be non-empty and shorter than the
  list of tables. The outcome of the merge, an error or a table with its statistics,
  is then the outcome of projecting and joining the labelled tables alone: the tables
  beyond the last label take no part in it, and all they add is their row counts to
  total_rows_original. On success the new and missing counts are recorded for the
  positions 1 up to the number of labels, and for no other.
\<close>

theorem merge_dataframes_unlabelled:
  assumes "df_names \<noteq> []" "length labelled = length df_names" "extra \<noteq> []"
  shows "merge_dataframes so J (labelled @ extra) mc sel df_names how =
           (case filter_dfs so mc sel 0 (zip labelled df_names) of
              Inl e \<Rightarrow> Inl e
            | Inr fs \<Rightarrow>
                (case merge_loop J mc how 1 (tl fs) (hd fs, Map.empty, Map.empty) of
                   Inl e \<Rightarrow> Inl e
                 | Inr (result, new, missing) \<Rightarrow>
                     Inr (result,
                          \<lparr>total_rows_original =
                             sum_list (map len_df labelled) + sum_list (map len_df extra),
                           new_rows_per_file = new,
                           missing_rows_per_file = missing,
                           total_rows_merged = len_df result\<rparr>)))
       \<and> (\<forall>result stats.
             merge_dataframes so J (labelled @ extra) mc sel df_names how = Inr (result, stats)
             \<longrightarrow> dom (new_rows_per_file stats) = {1 ..< length df_names}
               \<and> dom (missing_rows_per_file stats) = {1 ..< length df_names})"
proof (rule conjI)
  have z: "zip (labelled @ extra) df_names = zip labelled df_names"
    using assms(2) by (simp add: zip_append1)
  have l2: "2 \<le> length (labelled @ extra)"
    using assms by (cases labelled; cases extra) auto
  note u = merge_dataframes_unfold [OF l2, of so J mc sel df_names how]
  show "merge_dataframes so J (labelled @ extra) mc sel df_names how =
           (case filter_dfs so mc sel 0 (zip labelled df_names) of
              Inl e \<Rightarrow> Inl e
            | Inr fs \<Rightarrow>
                (case merge_loop J mc how 1 (tl fs) (hd fs, Map.empty, Map.empty) of
                   Inl e \<Rightarrow> Inl e
                 | Inr (result, new, missing) \<Rightarrow>
                     Inr (result,
                          \<lparr>total_rows_original =
                             sum_list (map len_df labelled) + sum_list (map len_df extra),
                           new_rows_per_file = new,
                           missing_rows_per_file = missing,
                           total_rows_merged = len_df result\<rparr>)))"
  proof (cases "filter_dfs so mc sel 0 (zip labelled df_names)")
    case (Inl e)
    then show ?thesis unfolding u z by simp
  next
    case (Inr fs)
    from filter_dfs_length[OF Inr] assms(1,2) have "fs \<noteq> []" by auto
    then obtain f rest where "fs = f # rest" by (cases fs) auto
    with Inr show ?thesis unfolding u z
      by (simp split: sum.splits)
  qed
next
  show "\<forall>result stats.
             merge_dataframes so J (labelled @ extra) mc sel df_names how = Inr (result, stats)
             \<longrightarrow> dom (new_rows_per_file stats) = {1 ..< length df_names}
               \<and> dom (missing_rows_per_file stats) = {1 ..< length df_names}"
  proof (intro allI impI)
    fix result stats
    assume ok: "merge_dataframes so J (labelled @ extra) mc sel df_names how = Inr (result, stats)"
    from merge_dataframes_Inr[OF ok] obtain fs new missing where
      fs: "filter_dfs so mc sel 0 (zip (labelled @ extra) df_names) = Inr fs" and ne: "fs \<noteq> []"
      and loop: "merge_loop J mc how 1 (tl fs) (hd fs, Map.empty, Map.empty) = Inr (result, new, missing)"
      and st: "new_rows_per_file stats = new" "missing_rows_per_file stats = missing"
      by auto
    from filter_dfs_length[OF fs] assms(2) have len: "length fs = length df_names" by simp
    have "1 + length (tl fs) = length df_names" using ne len by (cases fs) auto
    with merge_loop_dom[OF loop] st
    show "dom (new_rows_per_file stats) = {1 ..< length df_names}
        \<and> dom (missing_rows_per_file stats) = {1 ..< length df_names}"
      by (simp del: length_tl)
  qed
qed

theorem merge_dataframes_unlabelled_witness:
  "[''A''] \<noteq> [] \<and> length [ex_A] = length [''A''] \<and> [ex_B] \<noteq> []
   \<and> merge_dataframes sorted_order pd_merge ([ex_A] @ [ex_B]) ex_merge_columns ex_selected_columns
         [''A''] ''outer''
       = Inr (ex_A_projected,
            \<lparr>total_rows_original = 4, new_rows_per_file = Map.empty,
             missing_rows_per_file = Map.empty, total_rows_merged = 2\<rparr>)
   \<and> dom (new_rows_per_file
            \<lparr>total_rows_original = 4, new_rows_per_file = Map.empty,
             missing_rows_per_file = Map.empty, total_rows_merged = 2\<rparr>) = {1 ..< length [''A'']}
   \<and> dom (missing_rows_per_file
            \<lparr>total_rows_original = 4, new_rows_per_file = Map.empty,
             missing_rows_per_file = Map.empty, total_rows_merged = 2\<rparr>) = {1 ..< length [''A'']}"
proof -
  have h: "[''A''] \<noteq> []" "length [ex_A] = length [''A'']" "[ex_B] \<noteq> []"
    by simp_all
  from merge_dataframes_unlabelled [OF h, of sorted_order pd_merge ex_merge_columns
      ex_selected_columns "''outer''"] one_label_two_tables
  have "dom (new_rows_per_file
            \<lparr>total_rows_original = 4, new_rows_per_file = Map.empty,
             missing_rows_per_file = Map.empty, total_rows_merged = 2\<rparr>) = {1 ..< length [''A'']}
   \<and> dom (missing_rows_per_file
            \<lparr>total_rows_original = 4, new_rows_per_file = Map.empty,
             missing_rows_per_file = Map.empty, total_rows_merged = 2\<rparr>) = {1 ..< length [''A'']}"
    by blast
  with h one_label_two_tables show ?thesis by blast
qed

text \<open>
  With two tables and no label at all the merge does raise: the list of projections is
  empty, and reading its first element is an IndexError.
\<close>

theorem merge_dataframes_no_labels:
  "merge_dataframes sorted_order pd_merge [ex_A, ex_B] ex_merge_columns ex_selected_columns
       [] ''outer'' = Inl (IndexError ''list index out of range'')"
  by (simp add: merge_dataframes_def)

end
